theory Spec2Isabelle
  imports Complex_Main
begin

section \<open>Text normalisation and sentiment prediction (app.py, \<open>predict_sentiment\<close>)\<close>

text \<open>
  A Python \<open>str\<close> is modelled as a \<open>string\<close>: the bytes of its UTF-8 encoding. An ASCII
  character is one \<open>char\<close> below 128, every other code point is a run of \<open>char\<close>s from 128
  upwards. The first step of \<open>predict_sentiment\<close> replaces everything that is not an ASCII
  letter by a space, so \<open>lower()\<close> and \<open>split()\<close> only ever see ASCII letters and spaces
  (lemma \<open>re_sub_chars\<close> below); they are modelled on ASCII.
\<close>

definition is_upper :: "char \<Rightarrow> bool" where
  "is_upper c = (65 \<le> (of_char c :: nat) \<and> (of_char c :: nat) \<le> 90)"

definition is_lower :: "char \<Rightarrow> bool" where
  "is_lower c = (97 \<le> (of_char c :: nat) \<and> (of_char c :: nat) \<le> 122)"

text \<open>The character class \<open>[a-zA-Z]\<close>.\<close>

definition is_letter :: "char \<Rightarrow> bool" where
  "is_letter c = (is_lower c \<or> is_upper c)"

text \<open>
  \<open>re.sub('[^a-zA-Z]', ' ', text)\<close>: every character outside the class becomes a space.
  A code point beyond ASCII becomes one space in the source and one space for each of its
  bytes here; \<open>split()\<close> drops the difference.
\<close>

definition re_sub :: "string \<Rightarrow> string" where
  "re_sub text = map (\<lambda>c. if is_letter c then c else CHR '' '') text"

text \<open>\<open>text.lower()\<close>, on a string of ASCII letters and spaces.\<close>

definition lower_char :: "char \<Rightarrow> char" where
  "lower_char c = (if is_upper c then char_of ((of_char c :: nat) + 32) else c)"

definition lower :: "string \<Rightarrow> string" where
  "lower text = map lower_char text"

text \<open>
  \<open>text.split()\<close>: split at runs of whitespace and drop the empty pieces. The ASCII
  characters for which \<open>str.isspace\<close> holds are 9 to 13, 28 to 31 and the space.
\<close>

definition is_space :: "char \<Rightarrow> bool" where
  "is_space c = (let n = (of_char c :: nat) in (9 \<le> n \<and> n \<le> 13) \<or> (28 \<le> n \<and> n \<le> 32))"

fun split_from :: "string \<Rightarrow> string \<Rightarrow> string list" where
  "split_from word [] = (if word = [] then [] else [word])"
| "split_from word (c # cs) =
     (if is_space c
      then (if word = [] then split_from [] cs else word # split_from [] cs)
      else split_from (word @ [c]) cs)"

definition split :: "string \<Rightarrow> string list" where
  "split text = split_from [] text"

text \<open>\<open>sep.join(words)\<close>.\<close>

fun join :: "string \<Rightarrow> string list \<Rightarrow> string" where
  "join sep [] = []"
| "join sep [w] = w"
| "join sep (w # v # ws) = w @ sep @ join sep (v # ws)"

text \<open>
  Lines 27 to 31 of \<open>predict_sentiment\<close>, the normalisation step. \<open>stop_words\<close> is the list
  returned by \<open>stopwords.words('english')\<close>; \<open>word not in stop_words\<close> is list membership.
\<close>

definition normalize :: "string \<Rightarrow> string list \<Rightarrow> string" where
  "normalize text stop_words =
     join '' '' (filter (\<lambda>word. word \<notin> set stop_words) (split (lower (re_sub text))))"

text \<open>
  The vectorizer and the classifier are unpickled library objects. \<open>vectorizer.transform\<close>
  takes a batch of strings (here always the one-element batch) to a feature matrix of an
  opaque type \<open>'f\<close>; \<open>model.predict\<close> takes the one-row matrix to a one-element array, and
  \<open>sentiment == 0\<close> holds when the only element of that array is 0. The parameter \<open>model\<close>
  returns that element.
\<close>

definition predict_sentiment ::
  "string \<Rightarrow> ('f \<Rightarrow> int) \<Rightarrow> (string list \<Rightarrow> 'f) \<Rightarrow> string list \<Rightarrow> string" where
  "predict_sentiment text model vectorizer stop_words =
     (let text = normalize text stop_words;
          text = [text];
          text = vectorizer text;
          sentiment = model text
      in if sentiment = 0 then ''Negative'' else ''Positive'')"

text \<open>
  The same lines with the two library calls as Python has them: a call returns (\<open>Inr\<close>)
  or raises (\<open>Inl\<close>) an exception of the library, of some type \<open>'e\<close>. Nothing in
  \<open>predict_sentiment\<close> catches it, so an exception of either call is the outcome of
  \<open>predict_sentiment\<close>.
\<close>

definition predict_sentiment_raising ::
  "string \<Rightarrow> ('f \<Rightarrow> 'e + int) \<Rightarrow> (string list \<Rightarrow> 'e + 'f) \<Rightarrow> string list \<Rightarrow> 'e + string" where
  "predict_sentiment_raising text model vectorizer stop_words =
     (let text = normalize text stop_words;
          text = [text]
      in case vectorizer text of
           Inl e \<Rightarrow> Inl e
         | Inr text \<Rightarrow>
             (case model text of
                Inl e \<Rightarrow> Inl e
              | Inr sentiment \<Rightarrow> Inr (if sentiment = 0 then ''Negative'' else ''Positive'')))"

text \<open>
  Modelled from the spec: the pickled vectorizer and classifier (\<open>vectorizer.pkl\<close>,
  \<open>model.pkl\<close>) and the library code they run are not among the sources. Section 6 of the
  spec gives their call contract, "transform(batch of strings) -> batch of FeatureVectors"
  and "predict(batch of FeatureVectors) -> batch of {0,1}", and section 3 says that the
  classifier's behaviour on an empty normalised text is implementation-defined but does not
  raise. \<open>honours_contract\<close> says that the two calls keep that contract on one batch.
\<close>

definition honours_contract ::
  "('f \<Rightarrow> 'e + int) \<Rightarrow> (string list \<Rightarrow> 'e + 'f) \<Rightarrow> string list \<Rightarrow> bool" where
  "honours_contract model vectorizer batch =
     (case vectorizer batch of
        Inl e \<Rightarrow> False
      | Inr features \<Rightarrow>
          (case model features of
             Inl e \<Rightarrow> False
           | Inr sentiment \<Rightarrow> sentiment = 0 \<or> sentiment = 1))"

subsection \<open>Properties of a normalised text\<close>

text \<open>A word is a non-empty string of lower-case ASCII letters.\<close>

definition is_word :: "string \<Rightarrow> bool" where
  "is_word w = (w \<noteq> [] \<and> list_all is_lower w)"

text \<open>Two spaces next to each other somewhere in the string.\<close>

fun adjacent_spaces :: "string \<Rightarrow> bool" where
  "adjacent_spaces (c # d # cs) = ((c = CHR '' '' \<and> d = CHR '' '') \<or> adjacent_spaces (d # cs))"
| "adjacent_spaces cs = False"

text \<open>A space as the first or the last character.\<close>

definition space_at_end :: "string \<Rightarrow> bool" where
  "space_at_end s = (case s of [] \<Rightarrow> False | c # cs \<Rightarrow> c = CHR '' '' \<or> last s = CHR '' '')"

section \<open>Batch analysis (app.py, \<open>main\<close>)\<close>

text \<open>
  The exceptions the handlers can meet. \<open>Scraper_error\<close> stands for any \<open>Exception\<close> raised
  inside \<open>scraper.get_tweets\<close>, with its message.
\<close>

datatype exn = KeyError string | ZeroDivisionError | Scraper_error string

text \<open>
  A tweet is a dictionary with string keys; \<open>get_tweets\<close> returns a dictionary of lists of
  tweets, or \<open>None\<close>.
\<close>

type_synonym tweet = "(string \<times> string) list"
type_synonym tweets_data = "(string \<times> tweet list) list option"

text \<open>Lines 115 to 118: the loop over the selected demo tweets, appending to \<open>sentiments\<close>.\<close>

fun analyze_texts ::
  "string list \<Rightarrow> ('f \<Rightarrow> int) \<Rightarrow> (string list \<Rightarrow> 'f) \<Rightarrow> string list \<Rightarrow> string list \<Rightarrow> string list" where
  "analyze_texts [] model vectorizer stop_words sentiments = sentiments"
| "analyze_texts (tweet_text # rest) model vectorizer stop_words sentiments =
     analyze_texts rest model vectorizer stop_words
       (sentiments @ [predict_sentiment tweet_text model vectorizer stop_words])"

text \<open>
  Lines 182 to 186: the loop over the fetched tweets. \<open>tweet['text']\<close> raises \<open>KeyError\<close>
  on a tweet without that key.
\<close>

fun analyze_tweets ::
  "tweet list \<Rightarrow> ('f \<Rightarrow> int) \<Rightarrow> (string list \<Rightarrow> 'f) \<Rightarrow> string list \<Rightarrow> string list \<Rightarrow> exn + string list" where
  "analyze_tweets [] model vectorizer stop_words sentiments = Inr sentiments"
| "analyze_tweets (tweet # rest) model vectorizer stop_words sentiments =
     (case map_of tweet ''text'' of
        None \<Rightarrow> Inl (KeyError ''text'')
      | Some tweet_text \<Rightarrow>
          analyze_tweets rest model vectorizer stop_words
            (sentiments @ [predict_sentiment tweet_text model vectorizer stop_words]))"

text \<open>
  Lines 121 to 123 and 189 to 191: \<open>positive_count\<close>, \<open>negative_count\<close> and \<open>total_count\<close>.
\<close>

definition counts :: "string list \<Rightarrow> nat \<times> nat \<times> nat" where
  "counts sentiments =
     (count_list sentiments ''Positive'', count_list sentiments ''Negative'', length sentiments)"

text \<open>
  Python's \<open>/\<close> on two integers raises \<open>ZeroDivisionError\<close> on a zero divisor. The quotient
  is a float in the source and a real number here: rounding is not modelled.
\<close>

definition divide :: "nat \<Rightarrow> nat \<Rightarrow> exn + real" where
  "divide a b = (if b = 0 then Inl ZeroDivisionError else Inr (real a / real b))"

record summary =
  positive_count :: nat
  negative_count :: nat
  total_count :: nat
  positive_percentage :: real
  negative_percentage :: real

text \<open>Lines 121 to 125 and 189 to 193: the counts, then the two percentages.\<close>

definition statistics :: "string list \<Rightarrow> exn + summary" where
  "statistics sentiments =
     (case counts sentiments of (pos, neg, tot) \<Rightarrow>
        (case divide pos tot of
           Inl e \<Rightarrow> Inl e
         | Inr p \<Rightarrow>
             (case divide neg tot of
                Inl e \<Rightarrow> Inl e
              | Inr n \<Rightarrow>
                  Inr \<lparr>positive_count = pos, negative_count = neg,
                       total_count = tot,
                       positive_percentage = p * 100, negative_percentage = n * 100\<rparr>)))"

section \<open>The page (app.py, \<open>main\<close>)\<close>

text \<open>
  What one run of the script does is a trace of events: the calls into the page framework
  that show something to the user, and the call of \<open>scraper.get_tweets\<close>. The texts shown
  are constructors that carry the interpolated values:
  \<^item> \<open>Sentiment_is s\<close>: "Sentiment: s";
  \<^item> \<open>Demo_mode_enabled\<close>: "Demo mode enabled - using sample tweets for demonstration";
  \<^item> \<open>Analyzing_demo n\<close>: "Analyzing n demo tweets...", \<open>n\<close> the length of \<open>selected_tweets\<close>;
  \<^item> \<open>Please_enter_username\<close>: "Please enter a Twitter username";
  \<^item> \<open>Fetching n u\<close>: "Fetching up to n tweets from @u...";
  \<^item> \<open>Successfully_fetched n u\<close>: "Successfully fetched n tweets from @u", \<open>n\<close> the
    length of \<open>tweets\<close>;
  \<^item> \<open>No_tweets_found u\<close>: "No tweets found for @u. Please check if the username is
    correct and the account has public tweets.";
  \<^item> \<open>Demo_mode_tip\<close>: "Tip: Try enabling Demo Mode above to see how the sentiment analysis
    works with sample tweets!";
  \<^item> \<open>Error_while_fetching e\<close>: "An error occurred while fetching tweets: " and \<open>str(e)\<close>;
  \<^item> \<open>Demo_mode_suggestion\<close>: the list of possible causes that ends in "Suggestion: Enable
    Demo Mode (checkbox above) to see how the sentiment analysis works with sample tweets!".
\<close>

datatype message =
    Sentiment_is string
  | Demo_mode_enabled
  | Analyzing_demo nat
  | Please_enter_username
  | Fetching nat string
  | Successfully_fetched nat string
  | No_tweets_found string
  | Demo_mode_tip
  | Error_while_fetching exn
  | Demo_mode_suggestion

text \<open>
  \<open>Get_tweets u n\<close> is the call \<open>scraper.get_tweets(u, mode='user', number=n)\<close>.
  \<open>St_metrics\<close> stands for the summary header and its three metrics, \<open>St_bar_chart\<close> for the
  distribution chart of the two counts, \<open>St_card idx sentiment tweet_text\<close> for one coloured
  card.
\<close>

datatype event =
    St_write message
  | St_info message
  | St_spinner message
  | St_error message
  | St_warning message
  | St_success message
  | Get_tweets string nat
  | St_metrics summary
  | St_bar_chart nat nat
  | St_card nat string string

text \<open>
  A run ends normally (\<open>None\<close>) or with an exception that nothing caught (\<open>Some e\<close>); either
  way the events before that point have happened.
\<close>

type_synonym run = "event list \<times> exn option"

text \<open>Lines 127 to 140 and 195 to 208: the summary and the chart.\<close>

definition show_summary :: "summary \<Rightarrow> event list" where
  "show_summary s = [St_metrics s, St_bar_chart (positive_count s) (negative_count s)]"

text \<open>
  Lines 144 to 156: \<open>for idx, (tweet_text, sentiment) in enumerate(zip(...), 1)\<close>, one
  card for each pair.
\<close>

fun show_cards :: "nat \<Rightarrow> (string \<times> string) list \<Rightarrow> event list" where
  "show_cards idx [] = []"
| "show_cards idx ((tweet_text, sentiment) # rest) =
     St_card idx sentiment tweet_text # show_cards (Suc idx) rest"

text \<open>Lines 212 to 226: the same over the fetched tweets, which reads \<open>tweet['text']\<close> again.\<close>

fun show_tweet_cards :: "nat \<Rightarrow> (tweet \<times> string) list \<Rightarrow> run" where
  "show_tweet_cards idx [] = ([], None)"
| "show_tweet_cards idx ((tweet, sentiment) # rest) =
     (case map_of tweet ''text'' of
        None \<Rightarrow> ([], Some (KeyError ''text''))
      | Some tweet_text \<Rightarrow>
          (case show_tweet_cards (Suc idx) rest of
             (events, e) \<Rightarrow> (St_card idx sentiment tweet_text # events, e)))"

definition demo_tweets :: "string list" where
  "demo_tweets =
    [''I absolutely love this product! Best purchase I've made this year. Highly recommend it to everyone!'',
     ''This is terrible. Worst experience ever. I want my money back immediately.'',
     ''Just had an amazing day at the beach with friends. Life is beautiful!'',
     ''Feeling so frustrated and disappointed with the customer service. Never shopping here again.'',
     ''The new update is fantastic! Everything works so smoothly now. Great job developers!'',
     ''This app keeps crashing. So annoying and unreliable. Waste of time.'',
     ''What a wonderful surprise! Exceeded all my expectations. Five stars!'',
     ''Completely useless and overpriced. Don't waste your money on this garbage.'',
     ''Having such a great time at the concert! The energy is incredible!'',
     ''Stuck in traffic for hours. This is the worst commute of my life.'',
     ''Just finished reading an inspiring book. Feeling motivated and energized!'',
     ''The food was cold and tasteless. Very disappointing dining experience.'',
     ''Congratulations to the team! Outstanding performance and well-deserved victory!'',
     ''Another delay and no explanation. This airline is a complete disaster.'',
     ''Beautiful sunset today. Nature never fails to amaze me.'',
     ''Broken promises and poor quality. I expected so much better than this.'',
     ''Thank you for the wonderful gift! You always know how to make me smile.'',
     ''Rude staff and dirty facilities. Will never return to this place.'',
     ''Excited about the new opportunities ahead! Can't wait to get started!'',
     ''System is down again. How is this acceptable? Completely unreliable service.'']"

text \<open>
  Lines 85 to 156, the body of \<open>if st.button("Analyze Demo Tweets")\<close>. Nothing catches an
  exception here.
\<close>

definition analyze_demo_tweets ::
  "nat \<Rightarrow> ('f \<Rightarrow> int) \<Rightarrow> (string list \<Rightarrow> 'f) \<Rightarrow> string list \<Rightarrow> run" where
  "analyze_demo_tweets num_tweets model vectorizer stop_words =
     (let selected_tweets = take num_tweets demo_tweets;
          spinner = St_spinner (Analyzing_demo (length selected_tweets));
          sentiments = analyze_texts selected_tweets model vectorizer stop_words []
      in case statistics sentiments of
           Inl e \<Rightarrow> ([spinner], Some e)
         | Inr s \<Rightarrow>
             (spinner # show_summary s @ show_cards 1 (zip selected_tweets sentiments), None))"

text \<open>
  Lines 177 and 178: \<open>tweets_data and 'tweets' in tweets_data and len(tweets_data['tweets']) > 0\<close>
  and, when it holds, \<open>tweets = tweets_data['tweets']\<close>.
\<close>

definition fetched_tweets :: "tweets_data \<Rightarrow> tweet list option" where
  "fetched_tweets tweets_data =
     (case tweets_data of
        None \<Rightarrow> None
      | Some d \<Rightarrow>
          if d = [] then None
          else (case map_of d ''tweets'' of
                  None \<Rightarrow> None
                | Some tweets \<Rightarrow> if length tweets > 0 then Some tweets else None))"

text \<open>Lines 177 to 230: what the \<open>try\<close> block does once \<open>get_tweets\<close> has returned.\<close>

definition after_fetch ::
  "tweets_data \<Rightarrow> string \<Rightarrow> ('f \<Rightarrow> int) \<Rightarrow> (string list \<Rightarrow> 'f) \<Rightarrow> string list \<Rightarrow> run" where
  "after_fetch tweets_data username model vectorizer stop_words =
     (case fetched_tweets tweets_data of
        Some tweets \<Rightarrow>
          (let success = St_success (Successfully_fetched (length tweets) username)
           in case analyze_tweets tweets model vectorizer stop_words [] of
                Inl e \<Rightarrow> ([success], Some e)
              | Inr sentiments \<Rightarrow>
                  (case statistics sentiments of
                     Inl e \<Rightarrow> ([success], Some e)
                   | Inr s \<Rightarrow>
                       (case show_tweet_cards 1 (zip tweets sentiments) of
                          (cards, e) \<Rightarrow> (success # show_summary s @ cards, e))))
      | None \<Rightarrow> ([St_warning (No_tweets_found username), St_info Demo_mode_tip], None))"

text \<open>Lines 232 to 241: \<open>except Exception as e\<close>.\<close>

definition on_exception :: "exn \<Rightarrow> event list" where
  "on_exception e = [St_error (Error_while_fetching e), St_info Demo_mode_suggestion]"

text \<open>\<open>s.lstrip(chars)\<close>: drop the leading characters that occur in \<open>chars\<close>.\<close>

definition lstrip :: "string \<Rightarrow> string \<Rightarrow> string" where
  "lstrip chars s = dropWhile (\<lambda>c. c \<in> set chars) s"

text \<open>
  Lines 164 to 241, the body of \<open>if st.button("Fetch Tweets")\<close>. The scraper is the function
  \<open>get_tweets\<close> from user name and number to what the call does: raise (\<open>Inl\<close>) or return
  (\<open>Inr\<close>). Every exception of the \<open>try\<close> block ends in \<open>on_exception\<close>.
\<close>

definition fetch_tweets ::
  "string \<Rightarrow> nat \<Rightarrow> (string \<Rightarrow> nat \<Rightarrow> exn + tweets_data) \<Rightarrow>
     ('f \<Rightarrow> int) \<Rightarrow> (string list \<Rightarrow> 'f) \<Rightarrow> string list \<Rightarrow> run" where
  "fetch_tweets username num_tweets get_tweets model vectorizer stop_words =
     (if username = [] then ([St_error Please_enter_username], None)
      else
        (let username = lstrip ''@'' username;
             called = [St_spinner (Fetching num_tweets username), Get_tweets username num_tweets]
         in case get_tweets username num_tweets of
              Inl e \<Rightarrow> (called @ on_exception e, None)
            | Inr tweets_data \<Rightarrow>
                (case after_fetch tweets_data username model vectorizer stop_words of
                   (events, None) \<Rightarrow> (called @ events, None)
                 | (events, Some e) \<Rightarrow> (called @ events @ on_exception e, None))))"

text \<open>
  The state of the widgets in one run of the script: the values of \<open>option\<close>, \<open>text_input\<close>,
  \<open>use_demo\<close>, \<open>username\<close> and \<open>num_tweets\<close>, and which button was pressed.
\<close>

record widgets =
  w_option :: string
  w_text_input :: string
  w_use_demo :: bool
  w_username :: string
  w_num_tweets :: nat
  analyze_pressed :: bool
  analyze_demo_pressed :: bool
  fetch_pressed :: bool

text \<open>
  Lines 57 to 241. The stop words, the classifier, the vectorizer and the scraper, loaded
  once by the cached loaders, are parameters. The title and the widgets are not events.
\<close>

definition main ::
  "widgets \<Rightarrow> (string \<Rightarrow> nat \<Rightarrow> exn + tweets_data) \<Rightarrow>
     ('f \<Rightarrow> int) \<Rightarrow> (string list \<Rightarrow> 'f) \<Rightarrow> string list \<Rightarrow> run" where
  "main w get_tweets model vectorizer stop_words =
     (if w_option w = ''Input text'' then
        (if analyze_pressed w
         then ([St_write (Sentiment_is
                  (predict_sentiment (w_text_input w) model vectorizer stop_words))], None)
         else ([], None))
      else if w_option w = ''Get tweets from user'' then
        (if w_use_demo w then
           (if analyze_demo_pressed w
            then (case analyze_demo_tweets (w_num_tweets w) model vectorizer stop_words of
                    (events, e) \<Rightarrow> (St_info Demo_mode_enabled # events, e))
            else ([St_info Demo_mode_enabled], None))
         else
           (if fetch_pressed w
            then fetch_tweets (w_username w) (w_num_tweets w) get_tweets model vectorizer stop_words
            else ([], None)))
      else ([], None))"

section \<open>Sample artefacts\<close>

text \<open>
  A vectorizer that hands the batch on as it is, a classifier that answers 1 exactly on
  the batch with the one text "love", a stop word list, and three scrapers: one that
  raises, one that finds nothing, one that returns two tweets.
\<close>

definition sample_vectorizer :: "string list \<Rightarrow> string list" where
  "sample_vectorizer batch = batch"

definition sample_model :: "string list \<Rightarrow> int" where
  "sample_model batch = (if batch = [''love''] then 1 else 0)"

text \<open>
  The same two artefacts as calls that return, and a vectorizer that was never fitted: it
  raises on every batch.
\<close>

definition returning_vectorizer :: "string list \<Rightarrow> string + string list" where
  "returning_vectorizer batch = Inr (sample_vectorizer batch)"

definition returning_model :: "string list \<Rightarrow> string + int" where
  "returning_model batch = Inr (sample_model batch)"

definition unfitted_vectorizer :: "string list \<Rightarrow> string + string list" where
  "unfitted_vectorizer batch = Inl ''NotFittedError''"

definition sample_stop_words :: "string list" where
  "sample_stop_words = [''i'', ''it'', ''the'', ''don't'']"

definition failing_scraper :: "string \<Rightarrow> nat \<Rightarrow> exn + tweets_data" where
  "failing_scraper u n = Inl (Scraper_error ''timed out'')"

definition empty_scraper :: "string \<Rightarrow> nat \<Rightarrow> exn + tweets_data" where
  "empty_scraper u n = Inr (Some [(''tweets'', []), (''threads'', [])])"

definition sample_tweets :: "tweet list" where
  "sample_tweets = [[(''link'', ''x''), (''text'', ''I LOVE it!'')], [(''text'', ''The worst.'')]]"

definition sample_scraper :: "string \<Rightarrow> nat \<Rightarrow> exn + tweets_data" where
  "sample_scraper u n = Inr (Some [(''tweets'', sample_tweets), (''threads'', [])])"

section \<open>Properties\<close>

subsection \<open>Characters\<close>

lemma space_is_space: "is_space CHR '' ''"
  by (simp add: is_space_def)

lemma lower_not_space: "is_lower c \<Longrightarrow> \<not> is_space c"
  by (auto simp: is_lower_def is_space_def Let_def)

lemma lower_not_upper: "is_lower c \<Longrightarrow> \<not> is_upper c"
  by (simp add: is_lower_def is_upper_def)

lemma lower_char_letter: "is_letter c \<Longrightarrow> is_lower (lower_char c)"
  by (auto simp: is_letter_def lower_char_def is_lower_def is_upper_def)

lemma lower_char_space: "lower_char CHR '' '' = CHR '' ''"
  by (simp add: lower_char_def is_upper_def)

lemma lower_char_lower: "is_lower c \<Longrightarrow> lower_char c = c"
  by (simp add: lower_char_def lower_not_upper)

lemma re_sub_chars: "c \<in> set (re_sub text) \<Longrightarrow> is_letter c \<or> c = CHR '' ''"
  by (auto simp: re_sub_def)

lemma lower_re_sub_chars:
  "c \<in> set (lower (re_sub text)) \<Longrightarrow> is_lower c \<or> c = CHR '' ''"
  by (auto simp: lower_def re_sub_def lower_char_letter lower_char_space)

subsection \<open>Splitting and joining\<close>

lemma split_from_tokens:
  "w \<in> set (split_from word text) \<Longrightarrow> \<forall>c \<in> set word. \<not> is_space c \<Longrightarrow>
     w \<noteq> [] \<and> set w \<subseteq> set word \<union> set text \<and> (\<forall>c \<in> set w. \<not> is_space c)"
proof (induction "text" arbitrary: word)
  case Nil
  then show ?case by (auto split: if_splits)
next
  case (Cons c cs)
  show ?case
  proof (cases "is_space c")
    case True
    with Cons.prems have "w = word \<and> word \<noteq> [] \<or> w \<in> set (split_from [] cs)"
      by (auto split: if_splits)
    then show ?thesis
    proof
      assume "w = word \<and> word \<noteq> []"
      with Cons.prems(2) show ?thesis by auto
    next
      assume "w \<in> set (split_from [] cs)"
      from Cons.IH [OF this] show ?thesis by auto
    qed
  next
    case False
    with Cons.prems have "w \<in> set (split_from (word @ [c]) cs)" by simp
    moreover from False Cons.prems(2) have "\<forall>d \<in> set (word @ [c]). \<not> is_space d" by auto
    ultimately have "w \<noteq> [] \<and> set w \<subseteq> set (word @ [c]) \<union> set cs \<and> (\<forall>c \<in> set w. \<not> is_space c)"
      by (rule Cons.IH)
    then show ?thesis by auto
  qed
qed

lemma split_tokens:
  "w \<in> set (split text) \<Longrightarrow> w \<noteq> [] \<and> set w \<subseteq> set text \<and> (\<forall>c \<in> set w. \<not> is_space c)"
  using split_from_tokens [of w "[]" "text"] by (simp add: split_def)

lemma split_from_append:
  "\<forall>c \<in> set w. \<not> is_space c \<Longrightarrow> split_from word (w @ rest) = split_from (word @ w) rest"
  by (induction w arbitrary: word) auto

lemma is_word_no_space: "is_word w \<Longrightarrow> \<forall>c \<in> set w. \<not> is_space c"
  by (auto simp: is_word_def list_all_iff lower_not_space)

lemma is_word_space: "is_word w \<Longrightarrow> CHR '' '' \<notin> set w"
  using is_word_no_space space_is_space by blast

lemma split_from_join:
  "list_all is_word ws \<Longrightarrow> split_from [] (join '' '' ws) = ws"
proof (induction "'' ''" ws rule: join.induct)
  case 1
  then show ?case by simp
next
  case (2 w)
  then have "is_word w" by simp
  then have "split_from [] (w @ []) = split_from ([] @ w) []"
    by (intro split_from_append is_word_no_space)
  with \<open>is_word w\<close> show ?case by (simp add: is_word_def)
next
  case (3 w v ws)
  then have w: "is_word w" and IH: "split_from [] (join '' '' (v # ws)) = v # ws" by simp_all
  have "split_from [] (w @ '' '' @ join '' '' (v # ws)) = split_from ([] @ w) ('' '' @ join '' '' (v # ws))"
    using w by (intro split_from_append is_word_no_space)
  with w IH show ?case by (simp add: is_word_def space_is_space)
qed

lemma split_join: "list_all is_word ws \<Longrightarrow> split (join '' '' ws) = ws"
  by (simp add: split_def split_from_join)

lemma join_chars: "c \<in> set (join sep ws) \<Longrightarrow> c \<in> set sep \<or> (\<exists>w \<in> set ws. c \<in> set w)"
  by (induction sep ws rule: join.induct) auto

lemma adjacent_spaces_Cons: "c \<noteq> CHR '' '' \<Longrightarrow> adjacent_spaces (c # r) = adjacent_spaces r"
  by (cases r) auto

lemma adjacent_spaces_append:
  "CHR '' '' \<notin> set w \<Longrightarrow> adjacent_spaces (w @ r) = adjacent_spaces r"
  by (induction w) (auto simp: adjacent_spaces_Cons)

lemma join_words_ends:
  "list_all is_word ws \<Longrightarrow> ws \<noteq> [] \<Longrightarrow>
     join '' '' ws \<noteq> [] \<and> hd (join '' '' ws) \<noteq> CHR '' '' \<and> last (join '' '' ws) \<noteq> CHR '' ''"
proof (induction "'' ''" ws rule: join.induct)
  case 1
  then show ?case by simp
next
  case (2 w)
  then have w: "w \<noteq> []" "CHR '' '' \<notin> set w" by (simp_all add: is_word_def is_word_space)
  then have "hd w \<noteq> CHR '' ''" "last w \<noteq> CHR '' ''" by (metis hd_in_set, metis last_in_set)
  with w show ?case by simp
next
  case (3 w v ws)
  then have w: "w \<noteq> []" "CHR '' '' \<notin> set w" by (simp_all add: is_word_def is_word_space)
  from 3 have IH: "join '' '' (v # ws) \<noteq> []" "last (join '' '' (v # ws)) \<noteq> CHR '' ''" by simp_all
  from w have "hd w \<noteq> CHR '' ''" by (metis hd_in_set)
  with w IH show ?case by simp
qed

lemma join_words_single_spaces:
  "list_all is_word ws \<Longrightarrow> \<not> adjacent_spaces (join '' '' ws)"
proof (induction "'' ''" ws rule: join.induct)
  case 1
  then show ?case by simp
next
  case (2 w)
  then have "CHR '' '' \<notin> set w" by (simp add: is_word_space)
  from adjacent_spaces_append [OF this, of "[]"] show ?case by simp
next
  case (3 w v ws)
  then have w: "CHR '' '' \<notin> set w" and vs: "list_all is_word (v # ws)"
    and IH: "\<not> adjacent_spaces (join '' '' (v # ws))" by (simp_all add: is_word_space)
  from join_words_ends [OF vs] obtain c r where j: "join '' '' (v # ws) = c # r" and c: "c \<noteq> CHR '' ''"
    by (cases "join '' '' (v # ws)") auto
  have "adjacent_spaces (join '' '' (w # v # ws)) = adjacent_spaces (CHR '' '' # join '' '' (v # ws))"
    using adjacent_spaces_append [OF w] by simp
  with j c IH show ?case by simp
qed

lemma join_words_no_space_at_end:
  "list_all is_word ws \<Longrightarrow> \<not> space_at_end (join '' '' ws)"
proof (cases ws)
  case Nil
  then show ?thesis by (simp add: space_at_end_def)
next
  case (Cons w ws')
  assume "list_all is_word ws"
  with Cons have "join '' '' ws \<noteq> [] \<and> hd (join '' '' ws) \<noteq> CHR '' '' \<and> last (join '' '' ws) \<noteq> CHR '' ''"
    by (intro join_words_ends) simp_all
  then show ?thesis by (cases "join '' '' ws") (auto simp: space_at_end_def)
qed

subsection \<open>The normalised text\<close>

lemma words_of_text:
  "w \<in> set (split (lower (re_sub text))) \<Longrightarrow> is_word w"
proof -
  assume a: "w \<in> set (split (lower (re_sub text)))"
  from split_tokens [OF a] have ne: "w \<noteq> []" and sub: "set w \<subseteq> set (lower (re_sub text))"
    and ns: "\<forall>c \<in> set w. \<not> is_space c" by auto
  have "is_lower c" if "c \<in> set w" for c
  proof -
    from that sub have "is_lower c \<or> c = CHR '' ''" using lower_re_sub_chars by blast
    moreover from that ns have "c \<noteq> CHR '' ''" using space_is_space by auto
    ultimately show ?thesis by simp
  qed
  with ne show ?thesis by (simp add: is_word_def list_all_iff)
qed

lemma kept_words: "list_all is_word (filter (\<lambda>word. word \<notin> set stop_words) (split (lower (re_sub text))))"
  by (auto simp: list_all_iff words_of_text)

lemma split_normalize:
  "split (normalize text stop_words) = filter (\<lambda>word. word \<notin> set stop_words) (split (lower (re_sub text)))"
  by (simp add: normalize_def split_join kept_words)

lemma normalize_chars: "c \<in> set (normalize text stop_words) \<Longrightarrow> is_lower c \<or> c = CHR '' ''"
proof -
  assume "c \<in> set (normalize text stop_words)"
  then have "c \<in> set '' '' \<or> (\<exists>w \<in> set (filter (\<lambda>word. word \<notin> set stop_words) (split (lower (re_sub text)))). c \<in> set w)"
    unfolding normalize_def by (rule join_chars)
  then show ?thesis
  proof
    assume "c \<in> set '' ''" then show ?thesis by simp
  next
    assume "\<exists>w \<in> set (filter (\<lambda>word. word \<notin> set stop_words) (split (lower (re_sub text)))). c \<in> set w"
    then obtain w where "w \<in> set (split (lower (re_sub text)))" "c \<in> set w" by auto
    then show ?thesis using words_of_text [of w "text"] by (auto simp: is_word_def list_all_iff)
  qed
qed

lemma re_sub_id: "\<forall>c \<in> set text. is_lower c \<or> c = CHR '' '' \<Longrightarrow> re_sub text = text"
  by (induction "text") (auto simp: re_sub_def is_letter_def)

lemma lower_id: "\<forall>c \<in> set text. is_lower c \<or> c = CHR '' '' \<Longrightarrow> lower text = text"
  by (induction "text") (auto simp: lower_def lower_char_lower lower_char_space)

lemma normalize_twice: "normalize (normalize text stop_words) stop_words = normalize text stop_words"
proof -
  let ?n = "normalize text stop_words"
  have ch: "\<forall>c \<in> set ?n. is_lower c \<or> c = CHR '' ''" using normalize_chars by blast
  have "split (lower (re_sub ?n)) = split ?n" by (simp add: re_sub_id [OF ch] lower_id [OF ch])
  also have "\<dots> = filter (\<lambda>word. word \<notin> set stop_words) (split (lower (re_sub text)))"
    by (rule split_normalize)
  finally have "normalize ?n stop_words = join '' '' (filter (\<lambda>word. word \<notin> set stop_words) (filter (\<lambda>word. word \<notin> set stop_words) (split (lower (re_sub text)))))"
    by (simp add: normalize_def)
  then show ?thesis by (simp add: normalize_def)
qed

lemma sample_normalize: "normalize ''I LOVE  it, don't I?'' sample_stop_words = ''love don t''"
  by code_simp

lemma sample_normalize_love: "normalize ''I love it'' sample_stop_words = ''love''"
  by code_simp

lemma sample_normalize_worst: "normalize ''The worst.'' sample_stop_words = ''worst''"
  by code_simp

lemma sample_normalize_LOVE: "normalize ''I LOVE it!'' sample_stop_words = ''love''"
  by code_simp

lemma sample_stop_words_lower: "\<forall>w \<in> set sample_stop_words. lower w = w"
  by (simp add: sample_stop_words_def lower_def lower_char_def is_upper_def)

text \<open>
  Claim C1. Whatever the text and the stop words, the normalised text consists of lower-case
  ASCII letters and spaces only, has no two spaces next to each other and none at either
  end, and none of its tokens is a stop word.
\<close>

theorem normalize_output:
  "list_all (\<lambda>c. is_lower c \<or> c = CHR '' '') (normalize text stop_words)
   \<and> \<not> adjacent_spaces (normalize text stop_words)
   \<and> \<not> space_at_end (normalize text stop_words)
   \<and> list_all (\<lambda>w. w \<notin> set stop_words) (split (normalize text stop_words))"
proof -
  let ?ws = "filter (\<lambda>word. word \<notin> set stop_words) (split (lower (re_sub text)))"
  have ws: "list_all is_word ?ws" by (rule kept_words)
  have "list_all (\<lambda>c. is_lower c \<or> c = CHR '' '') (normalize text stop_words)"
    using normalize_chars by (auto simp: list_all_iff)
  moreover have "\<not> adjacent_spaces (normalize text stop_words)"
    unfolding normalize_def using ws by (rule join_words_single_spaces)
  moreover have "\<not> space_at_end (normalize text stop_words)"
    unfolding normalize_def using ws by (rule join_words_no_space_at_end)
  moreover have "list_all (\<lambda>w. w \<notin> set stop_words) (split (normalize text stop_words))"
    by (simp add: split_normalize list_all_iff)
  ultimately show ?thesis by blast
qed

theorem normalize_output_witness:
  "normalize ''I LOVE  it, don't I?'' sample_stop_words = ''love don t''
   \<and> list_all (\<lambda>c. is_lower c \<or> c = CHR '' '') ''love don t''
   \<and> \<not> adjacent_spaces ''love don t''
   \<and> \<not> space_at_end ''love don t''
   \<and> list_all (\<lambda>w. w \<notin> set sample_stop_words) (split ''love don t'')"
  using normalize_output [of "''I LOVE  it, don't I?''" sample_stop_words]
  by (simp only: sample_normalize simp_thms)

text \<open>
  Claim C9. For stop words that are all lower-case, normalising a normalised text gives it
  back unchanged. (Lemma \<open>normalize_twice\<close> shows the same for any list of stop words.)
\<close>

theorem normalize_idempotent:
  assumes "\<forall>w \<in> set stop_words. lower w = w"
  shows "normalize (normalize text stop_words) stop_words = normalize text stop_words"
  by (rule normalize_twice)

theorem normalize_idempotent_witness:
  "normalize ''I LOVE  it, don't I?'' sample_stop_words = ''love don t''
   \<and> normalize (normalize ''I LOVE  it, don't I?'' sample_stop_words) sample_stop_words
       = ''love don t''"
  using normalize_idempotent [OF sample_stop_words_lower, of "''I LOVE  it, don't I?''"]
  by (simp only: sample_normalize simp_thms)

subsection \<open>The label\<close>

lemma predict_sentiment_label:
  "predict_sentiment text model vectorizer stop_words \<in> {''Positive'', ''Negative''}"
  by (simp add: predict_sentiment_def Let_def)

lemma normalize_empty: "normalize [] stop_words = []"
  by (simp add: normalize_def re_sub_def lower_def split_def)

lemma predict_sentiment_raising_returning:
  "predict_sentiment_raising text (\<lambda>features. Inr (model features)) (\<lambda>batch. Inr (vectorizer batch))
       stop_words
     = Inr (predict_sentiment text model vectorizer stop_words)"
  by (simp add: predict_sentiment_raising_def predict_sentiment_def Let_def)

lemma predict_sentiment_raising_vectorizer:
  "vectorizer [normalize text stop_words] = Inl e \<Longrightarrow>
     predict_sentiment_raising text model vectorizer stop_words = Inl e"
  by (simp add: predict_sentiment_raising_def)

lemma predict_sentiment_raising_model:
  "vectorizer [normalize text stop_words] = Inr features \<Longrightarrow> model features = Inl e \<Longrightarrow>
     predict_sentiment_raising text model vectorizer stop_words = Inl e"
  by (simp add: predict_sentiment_raising_def)

lemma unfitted_raises:
  "predict_sentiment_raising [] returning_model unfitted_vectorizer sample_stop_words
     = Inl ''NotFittedError''"
  by (simp add: predict_sentiment_raising_def unfitted_vectorizer_def)

lemma sample_contract: "honours_contract returning_model returning_vectorizer [[]]"
  by (simp add: honours_contract_def returning_model_def returning_vectorizer_def
      sample_model_def sample_vectorizer_def)

text \<open>
  Claim C2. When the classifier answers 0 or 1, the label is "Negative" exactly for 0 and
  "Positive" exactly for 1.
\<close>

theorem predict_sentiment_mapping:
  assumes "model (vectorizer [normalize text stop_words]) \<in> {0, 1}"
  shows "(predict_sentiment text model vectorizer stop_words = ''Negative''
            \<longleftrightarrow> model (vectorizer [normalize text stop_words]) = 0)
       \<and> (predict_sentiment text model vectorizer stop_words = ''Positive''
            \<longleftrightarrow> model (vectorizer [normalize text stop_words]) = 1)"
  using assms by (auto simp: predict_sentiment_def Let_def)

theorem predict_sentiment_mapping_witness:
  "sample_model (sample_vectorizer [normalize ''I love it'' sample_stop_words]) = 1
   \<and> predict_sentiment ''I love it'' sample_model sample_vectorizer sample_stop_words = ''Positive''
   \<and> sample_model (sample_vectorizer [normalize ''The worst.'' sample_stop_words]) = 0
   \<and> predict_sentiment ''The worst.'' sample_model sample_vectorizer sample_stop_words = ''Negative''"
proof -
  have one: "sample_model (sample_vectorizer [normalize ''I love it'' sample_stop_words]) = 1"
    by (simp add: sample_normalize_love sample_model_def sample_vectorizer_def)
  have zero: "sample_model (sample_vectorizer [normalize ''The worst.'' sample_stop_words]) = 0"
    by (simp add: sample_normalize_worst sample_model_def sample_vectorizer_def)
  from one have "sample_model (sample_vectorizer [normalize ''I love it'' sample_stop_words]) \<in> {0, 1}"
    by simp
  with predict_sentiment_mapping [of sample_model sample_vectorizer "''I love it''" sample_stop_words] one
  have p: "predict_sentiment ''I love it'' sample_model sample_vectorizer sample_stop_words = ''Positive''"
    by simp
  from zero have "sample_model (sample_vectorizer [normalize ''The worst.'' sample_stop_words]) \<in> {0, 1}"
    by simp
  with predict_sentiment_mapping [of sample_model sample_vectorizer "''The worst.''" sample_stop_words] zero
  have n: "predict_sentiment ''The worst.'' sample_model sample_vectorizer sample_stop_words = ''Negative''"
    by simp
  from one p zero n show ?thesis by blast
qed

text \<open>
  Claim C6. With a vectorizer and a classifier that keep their call contract on the batch
  of the one empty string, \<open>predict_sentiment\<close> on the empty string raises nothing and
  returns "Positive" or "Negative": the normalised text is empty, the vectorizer is called
  on that batch, and the label is the one that belongs to the classifier's answer.
\<close>

theorem predict_sentiment_empty_text:
  assumes "honours_contract model vectorizer [[]]"
  shows "normalize [] stop_words = []
       \<and> (\<exists>features sentiment.
             vectorizer [[]] = Inr features \<and> model features = Inr sentiment
             \<and> predict_sentiment_raising [] model vectorizer stop_words
                 = Inr (if sentiment = 0 then ''Negative'' else ''Positive''))
       \<and> (predict_sentiment_raising [] model vectorizer stop_words = Inr ''Positive''
            \<or> predict_sentiment_raising [] model vectorizer stop_words = Inr ''Negative'')"
proof -
  from assms obtain features where v: "vectorizer [[]] = Inr features"
    by (cases "vectorizer [[]]") (simp_all add: honours_contract_def)
  with assms obtain sentiment where m: "model features = Inr sentiment"
    by (cases "model features") (simp_all add: honours_contract_def)
  have p: "predict_sentiment_raising [] model vectorizer stop_words
      = Inr (if sentiment = 0 then ''Negative'' else ''Positive'')"
    by (simp add: predict_sentiment_raising_def normalize_empty v m)
  then have "predict_sentiment_raising [] model vectorizer stop_words = Inr ''Positive''
      \<or> predict_sentiment_raising [] model vectorizer stop_words = Inr ''Negative''"
    by simp
  with v m p show ?thesis by (auto simp: normalize_empty)
qed

theorem predict_sentiment_empty_text_witness:
  "honours_contract returning_model returning_vectorizer [[]]
   \<and> predict_sentiment_raising [] returning_model returning_vectorizer sample_stop_words
       = Inr ''Negative''"
proof -
  have "predict_sentiment_raising [] returning_model returning_vectorizer sample_stop_words
      \<noteq> Inr ''Positive''"
    by (simp add: predict_sentiment_raising_def normalize_empty returning_model_def
        returning_vectorizer_def sample_model_def sample_vectorizer_def)
  with predict_sentiment_empty_text [OF sample_contract, of sample_stop_words] sample_contract
  show ?thesis by blast
qed

subsection \<open>Batches\<close>

lemma analyze_texts_map:
  "analyze_texts texts model vectorizer stop_words sentiments =
     sentiments @ map (\<lambda>t. predict_sentiment t model vectorizer stop_words) texts"
  by (induction texts arbitrary: sentiments) simp_all

lemma analyze_tweets_texts:
  "map (\<lambda>tweet. map_of tweet ''text'') tweets = map Some texts \<Longrightarrow>
     analyze_tweets tweets model vectorizer stop_words sentiments =
       Inr (analyze_texts texts model vectorizer stop_words sentiments)"
proof (induction tweets arbitrary: texts sentiments)
  case Nil
  then show ?case by simp
next
  case (Cons tweet rest)
  then obtain t ts where "texts = t # ts" "map_of tweet ''text'' = Some t"
    "map (\<lambda>tweet. map_of tweet ''text'') rest = map Some ts"
    by (cases texts) auto
  with Cons.IH [of ts] show ?case by simp
qed



lemma count_labels:
  "\<forall>l \<in> set ls. l = ''Positive'' \<or> l = ''Negative'' \<Longrightarrow>
     count_list ls ''Positive'' + count_list ls ''Negative'' = length ls"
  by (induction ls) auto

lemma statistics_nonempty:
  "sentiments \<noteq> [] \<Longrightarrow>
     statistics sentiments =
       Inr \<lparr>positive_count = count_list sentiments ''Positive'',
            negative_count = count_list sentiments ''Negative'',
            total_count = length sentiments,
            positive_percentage = real (count_list sentiments ''Positive'') / real (length sentiments) * 100,
            negative_percentage = real (count_list sentiments ''Negative'') / real (length sentiments) * 100\<rparr>"
  by (simp add: statistics_def counts_def divide_def)

lemma sample_tweets_texts:
  "map (\<lambda>tweet. map_of tweet ''text'') sample_tweets = map Some [''I LOVE it!'', ''The worst.'']"
  by (simp add: sample_tweets_def)

lemma sample_sentiments:
  "analyze_texts [''I LOVE it!'', ''The worst.''] sample_model sample_vectorizer sample_stop_words []
     = [''Positive'', ''Negative'']"
  by (simp add: predict_sentiment_def sample_normalize_LOVE sample_normalize_worst
      sample_model_def sample_vectorizer_def)

text \<open>
  Claim C3. For texts \<open>T\<close> the loop returns \<open>length T\<close> labels, the label at each position
  is that of the text at that position, and the positive and negative counts add up to
  \<open>length T\<close>, which is the total count. The loop over fetched tweets whose texts are \<open>T\<close>
  returns the same list.
\<close>

theorem batch_counts:
  assumes "map (\<lambda>tweet. map_of tweet ''text'') tweets = map Some texts"
  shows "length (analyze_texts texts model vectorizer stop_words []) = length texts
       \<and> (\<forall>i < length texts. analyze_texts texts model vectorizer stop_words [] ! i
              = predict_sentiment (texts ! i) model vectorizer stop_words)
       \<and> (\<exists>p n. counts (analyze_texts texts model vectorizer stop_words []) = (p, n, length texts)
              \<and> p + n = length texts)
       \<and> analyze_tweets tweets model vectorizer stop_words []
              = Inr (analyze_texts texts model vectorizer stop_words [])"
proof -
  let ?s = "analyze_texts texts model vectorizer stop_words []"
  have m: "?s = map (\<lambda>t. predict_sentiment t model vectorizer stop_words) texts"
    by (simp add: analyze_texts_map)
  have "\<forall>l \<in> set ?s. l = ''Positive'' \<or> l = ''Negative''"
    unfolding m using predict_sentiment_label by fastforce
  then have "count_list ?s ''Positive'' + count_list ?s ''Negative'' = length ?s"
    by (rule count_labels)
  moreover have "length ?s = length texts" by (simp add: m)
  ultimately have "\<exists>p n. counts ?s = (p, n, length texts) \<and> p + n = length texts"
    by (simp add: counts_def)
  moreover have "\<forall>i < length texts. ?s ! i = predict_sentiment (texts ! i) model vectorizer stop_words"
    by (simp add: m)
  moreover have "analyze_tweets tweets model vectorizer stop_words [] = Inr ?s"
    using assms by (rule analyze_tweets_texts)
  ultimately show ?thesis using \<open>length ?s = length texts\<close> by blast
qed

theorem batch_counts_witness:
  "analyze_tweets sample_tweets sample_model sample_vectorizer sample_stop_words []
     = Inr [''Positive'', ''Negative'']
   \<and> counts [''Positive'', ''Negative''] = (1, 1, 2)"
  using batch_counts [OF sample_tweets_texts, of sample_model sample_vectorizer sample_stop_words]
  unfolding sample_sentiments by (simp add: counts_def)

subsection \<open>The empty batch\<close>




lemma after_fetch_empty:
  "fetched_tweets tweets_data = None \<Longrightarrow>
     after_fetch tweets_data username model vectorizer stop_words =
       ([St_warning (No_tweets_found username), St_info Demo_mode_tip], None)"
  by (simp add: after_fetch_def)

lemma analyze_demo_tweets_ok:
  assumes "0 < num_tweets"
  shows "snd (analyze_demo_tweets num_tweets model vectorizer stop_words) = None"
proof -
  let ?sel = "take num_tweets demo_tweets"
  have "length demo_tweets = 20" by (simp add: demo_tweets_def)
  with assms have "?sel \<noteq> []" by auto
  then have "analyze_texts ?sel model vectorizer stop_words [] \<noteq> []"
    by (simp add: analyze_texts_map)
  from statistics_nonempty [OF this] show ?thesis
    by (simp add: analyze_demo_tweets_def Let_def)
qed

lemma sample_fetched_none: "fetched_tweets (Some [(''tweets'', []), (''threads'', [])]) = None"
  by (simp add: fetched_tweets_def)




subsection \<open>Fetching tweets\<close>

lemma lstrip_all: "set s \<subseteq> set chars \<Longrightarrow> lstrip chars s = []"
  by (auto simp: lstrip_def)

lemma fetch_tweets_never_raises:
  "snd (fetch_tweets username num_tweets get_tweets model vectorizer stop_words) = None"
  by (simp add: fetch_tweets_def Let_def split: sum.splits prod.splits option.splits)

lemma main_input_text:
  "w_option w = ''Input text'' \<Longrightarrow> analyze_pressed w \<Longrightarrow>
     main w get_tweets model vectorizer stop_words =
       ([St_write (Sentiment_is (predict_sentiment (w_text_input w) model vectorizer stop_words))],
        None)"
  by (simp add: main_def)

lemma main_fetch:
  "w_option w = ''Get tweets from user'' \<Longrightarrow> \<not> w_use_demo w \<Longrightarrow> fetch_pressed w \<Longrightarrow>
     main w get_tweets model vectorizer stop_words =
       fetch_tweets (w_username w) (w_num_tweets w) get_tweets model vectorizer stop_words"
  by (simp add: main_def)

lemma main_demo:
  "w_option w = ''Get tweets from user'' \<Longrightarrow> w_use_demo w \<Longrightarrow> analyze_demo_pressed w \<Longrightarrow>
     0 < w_num_tweets w \<Longrightarrow>
     snd (main w get_tweets model vectorizer stop_words) = None"
  using analyze_demo_tweets_ok [of "w_num_tweets w" model vectorizer stop_words]
  by (auto simp: main_def split: prod.splits)

text \<open>
  Claim C7. With an empty user name the only event of the fetch handler is the error
  "Please enter a Twitter username"; \<open>get_tweets\<close> is not called, whatever it would do.
\<close>

theorem fetch_tweets_empty_username:
  "fetch_tweets [] num_tweets get_tweets model vectorizer stop_words
     = ([St_error Please_enter_username], None)
   \<and> Get_tweets u n \<notin> set (fst (fetch_tweets [] num_tweets get_tweets model vectorizer stop_words))"
  by (simp add: fetch_tweets_def)

text \<open>
  Claim C8. When the user name is not empty and \<open>get_tweets\<close> raises, or returns a result
  without tweets, the handler shows an error or a warning with a hint and nothing else:
  no summary, no card. The trace does not depend on the classifier, and the handler
  never ends in an exception.
\<close>

theorem fetch_tweets_failure:
  assumes "username \<noteq> []"
  shows "(get_tweets (lstrip ''@'' username) num_tweets = Inl e \<longrightarrow>
           fetch_tweets username num_tweets get_tweets model vectorizer stop_words =
             ([St_spinner (Fetching num_tweets (lstrip ''@'' username)),
               Get_tweets (lstrip ''@'' username) num_tweets,
               St_error (Error_while_fetching e), St_info Demo_mode_suggestion], None))
       \<and> (get_tweets (lstrip ''@'' username) num_tweets = Inr tweets_data
            \<and> fetched_tweets tweets_data = None \<longrightarrow>
           fetch_tweets username num_tweets get_tweets model vectorizer stop_words =
             ([St_spinner (Fetching num_tweets (lstrip ''@'' username)),
               Get_tweets (lstrip ''@'' username) num_tweets,
               St_warning (No_tweets_found (lstrip ''@'' username)), St_info Demo_mode_tip], None))
       \<and> snd (fetch_tweets username num_tweets get_tweets model vectorizer stop_words) = None"
  using assms fetch_tweets_never_raises [of username num_tweets get_tweets model vectorizer stop_words]
  by (simp add: fetch_tweets_def Let_def on_exception_def after_fetch_empty)

theorem fetch_tweets_failure_witness:
  "fetch_tweets ''@bob'' 10 failing_scraper sample_model sample_vectorizer sample_stop_words =
     ([St_spinner (Fetching 10 ''bob''), Get_tweets ''bob'' 10,
       St_error (Error_while_fetching (Scraper_error ''timed out'')),
       St_info Demo_mode_suggestion], None)
   \<and> fetch_tweets ''@bob'' 10 empty_scraper sample_model sample_vectorizer sample_stop_words =
     ([St_spinner (Fetching 10 ''bob''), Get_tweets ''bob'' 10,
       St_warning (No_tweets_found ''bob''), St_info Demo_mode_tip], None)"
proof -
  have s: "lstrip ''@'' ''@bob'' = ''bob''" by (simp add: lstrip_def)
  have ne: "''@bob'' \<noteq> []" by simp
  have f: "failing_scraper ''bob'' 10 = Inl (Scraper_error ''timed out'')"
    by (simp add: failing_scraper_def)
  have e: "empty_scraper ''bob'' 10 = Inr (Some [(''tweets'', []), (''threads'', [])])"
    by (simp add: empty_scraper_def)
  from fetch_tweets_failure [OF ne, where get_tweets = failing_scraper and num_tweets = 10
      and e = "Scraper_error ''timed out''" and model = sample_model
      and vectorizer = sample_vectorizer and stop_words = sample_stop_words]
    fetch_tweets_failure [OF ne, where get_tweets = empty_scraper and num_tweets = 10
      and tweets_data = "Some [(''tweets'', []), (''threads'', [])]" and model = sample_model
      and vectorizer = sample_vectorizer and stop_words = sample_stop_words]
  show ?thesis by (simp add: s f e sample_fetched_none)
qed

text \<open>
  Claim C10. A user name that is not empty and consists of \<open>@\<close> characters only passes the
  check for emptiness, is stripped to the empty string, and \<open>get_tweets\<close> is called with
  the empty string.
\<close>

theorem fetch_tweets_only_at_signs:
  assumes "username \<noteq> []" and "set username \<subseteq> {CHR ''@''}"
  shows "lstrip ''@'' username = []
       \<and> (\<exists>events. fetch_tweets username num_tweets get_tweets model vectorizer stop_words
             = (St_spinner (Fetching num_tweets []) # Get_tweets [] num_tweets # events, None))
       \<and> fetch_tweets username num_tweets get_tweets model vectorizer stop_words
             \<noteq> ([St_error Please_enter_username], None)"
proof -
  from assms(2) have l: "lstrip ''@'' username = []" by (intro lstrip_all) simp
  obtain events e where a:
    "after_fetch (projr (get_tweets [] num_tweets)) [] model vectorizer stop_words = (events, e)"
    by (cases "after_fetch (projr (get_tweets [] num_tweets)) [] model vectorizer stop_words")
  have "\<exists>events. fetch_tweets username num_tweets get_tweets model vectorizer stop_words
      = (St_spinner (Fetching num_tweets []) # Get_tweets [] num_tweets # events, None)"
    using assms(1) l a
    by (cases "get_tweets [] num_tweets"; cases e) (simp_all add: fetch_tweets_def Let_def)
  with l show ?thesis by auto
qed

theorem fetch_tweets_only_at_signs_witness:
  "''@@'' \<noteq> [] \<and> set ''@@'' \<subseteq> {CHR ''@''}
   \<and> fetch_tweets ''@@'' 10 empty_scraper sample_model sample_vectorizer sample_stop_words
       = ([St_spinner (Fetching 10 []), Get_tweets [] 10,
           St_warning (No_tweets_found []), St_info Demo_mode_tip], None)"
proof -
  have 1: "''@@'' \<noteq> []" and 2: "set ''@@'' \<subseteq> {CHR ''@''}" by simp_all
  have "fetch_tweets ''@@'' 10 empty_scraper sample_model sample_vectorizer sample_stop_words
       = ([St_spinner (Fetching 10 []), Get_tweets [] 10,
           St_warning (No_tweets_found []), St_info Demo_mode_tip], None)"
    using fetch_tweets_only_at_signs [OF 1 2, of 10 empty_scraper sample_model sample_vectorizer sample_stop_words]
    by (simp add: fetch_tweets_def lstrip_def empty_scraper_def after_fetch_def fetched_tweets_def)
  with 1 2 show ?thesis by blast
qed

end
